theory Spec2Isabelle
  imports Complex_Main "HOL-Library.Monad_Syntax"
begin

section \<open>Dynamic values\<close>

text \<open>
  Go's \<^verbatim>\<open>interface{}\<close> as it occurs in event payloads, action params and
  expression literals. The integer kinds are kept apart because the two
  \<^verbatim>\<open>toFloat64\<close> helpers of the repository switch on different sets of them.
  \<^verbatim>\<open>float64\<close> is modelled by \<open>real\<close>: rounding, infinities and NaN are not
  represented.
\<close>

datatype intkind =
  K_int | K_int8 | K_int16 | K_int32 | K_int64
| K_uint | K_uint8 | K_uint16 | K_uint32 | K_uint64

datatype dynval =
  VNil
| VBool bool
| VString string
| VInt intkind int
| VFloat32 real
| VFloat64 real
| VMap "(string \<times> dynval) list"
| VList "dynval list"

text \<open>
  The functions of Go's standard library that the code calls and that are not
  part of the repository are taken as a parameter: every theorem holds for any
  implementation of them. An \<^verbatim>\<open>error\<close> is the text that its \<^verbatim>\<open>Error()\<close>
  method returns; \<^verbatim>\<open>fmt.Errorf\<close> with \<^verbatim>\<open>%w\<close> splices the wrapped error's text.
\<close>

type_synonym error = string

record golib =
  strings_ToLower :: "string \<Rightarrow> string"
  strings_ToUpper :: "string \<Rightarrow> string"
  fmt_v_other :: "dynval \<Rightarrow> string"
  fmt_q :: "string \<Rightarrow> string"
  fmt_q_byte :: "char \<Rightarrow> string"
  fmt_d :: "nat \<Rightarrow> string"
  fmt_T :: "dynval \<Rightarrow> string"
  regexp_Compile :: "string \<Rightarrow> error + (string \<Rightarrow> bool)"
  strconv_ParseFloat :: "string \<Rightarrow> real option"
  strconv_ParseInt :: "string \<Rightarrow> int option"

text \<open>\<^verbatim>\<open>fmt.Sprintf("%v", v)\<close>: a string prints as itself, a boolean as
  \<^verbatim>\<open>true\<close> or \<^verbatim>\<open>false\<close>; numbers, maps, lists and nil are left to the library.\<close>

definition Sprint_v :: "golib \<Rightarrow> dynval \<Rightarrow> string" where
  "Sprint_v L v =
     (case v of
        VString s \<Rightarrow> s
      | VBool b \<Rightarrow> (if b then ''true'' else ''false'')
      | _ \<Rightarrow> fmt_v_other L v)"

section \<open>Operators (internal/condition/operators.go)\<close>

fun toFloat64 :: "dynval \<Rightarrow> real option" where
  "toFloat64 (VInt k n) = Some (real_of_int n)"
| "toFloat64 (VFloat32 r) = Some r"
| "toFloat64 (VFloat64 r) = Some r"
| "toFloat64 v = None"

definition equal_val :: "golib \<Rightarrow> dynval \<Rightarrow> dynval \<Rightarrow> bool" where
  "equal_val L left right =
     (case (toFloat64 left, toFloat64 right) of
        (Some lf, Some rf) \<Rightarrow> \<bar>lf - rf\<bar> < 1 / 10 ^ 9
      | _ \<Rightarrow>
        (case left of
           VBool lb \<Rightarrow> (case right of VBool rb \<Rightarrow> lb = rb | _ \<Rightarrow> False)
         | _ \<Rightarrow> Sprint_v L left = Sprint_v L right))"

section \<open>Events (internal/event/event.go)\<close>

text \<open>The two timestamps of an event are never read by the code modelled here
  and are left out. A nil map and an empty map read alike; the payload and the
  meta map keep the difference because the resolver tests for nil.\<close>

record Event =
  Event_ID :: string
  Event_Type :: string
  Event_Source :: string
  Event_ActorID :: string
  Event_Payload :: "(string \<times> dynval) list option"
  Event_Meta :: "(string \<times> string) list option"

section \<open>Graph nodes (internal/dag)\<close>

record EvalContext =
  ctx_Event :: Event
  ctx_Results :: "(string \<times> dynval) list option"
  ctx_Errors :: "error list"

record ScenarioNode =
  sn_id :: string
  sn_eventTypes :: "string set"
  sn_sources :: "string set"

definition NewScenarioNode :: "golib \<Rightarrow> string \<Rightarrow> string list \<Rightarrow> string list \<Rightarrow> ScenarioNode" where
  "NewScenarioNode L i eventTypes sources =
     \<lparr>sn_id = i,
      sn_eventTypes = set (map (strings_ToLower L) eventTypes),
      sn_sources = set (map (strings_ToLower L) sources)\<rparr>"

definition ScenarioNode_Evaluate :: "golib \<Rightarrow> ScenarioNode \<Rightarrow> EvalContext \<Rightarrow> error + bool" where
  "ScenarioNode_Evaluate L n ctx =
     (if strings_ToLower L (Event_Type (ctx_Event ctx)) \<notin> sn_eventTypes n then Inr False
      else if sn_sources n \<noteq> {} \<and>
              strings_ToLower L (Event_Source (ctx_Event ctx)) \<notin> sn_sources n then Inr False
      else Inr True)"

section \<open>Rule document (internal/config)\<close>

record EngineConf =
  EventWorkers :: int
  ActionWorkers :: int
  QueueDepth :: int
  EventTimeoutMs :: int
  FailOpen :: bool

record ActionDef =
  ad_ID :: string
  ad_Type :: string
  ad_Params :: "(string \<times> dynval) list"

text \<open>A \<^verbatim>\<open>NodeRef\<close> holds two pointers, either of which may be nil.\<close>

datatype NodeRef = NodeRef (nr_Condition: "ConditionDef option") (nr_Action: "ActionDef option")
  and ConditionDef = ConditionDef (cd_ID: string) (cd_Expression: string) (cd_Children: "NodeRef list")

record Scenario =
  sc_ID :: string
  sc_Description :: string
  sc_Enabled :: bool
  sc_EventTypes :: "string list"
  sc_Sources :: "string list"
  sc_Children :: "NodeRef list"

record RuleConfig =
  rc_Version :: string
  rc_Engine :: EngineConf
  rc_Scenarios :: "Scenario list"

text \<open>
  \<^verbatim>\<open>Loader.load\<close>. Reading the file and \<^verbatim>\<open>yaml.Unmarshal\<close> are outside the
  repository and are parameters: \<open>readFile\<close> is what \<^verbatim>\<open>os.ReadFile\<close> returned
  for the loader's path and \<open>unmarshal\<close> decodes the bytes into a
  \<^verbatim>\<open>RuleConfig\<close> that started out zero-valued.
\<close>

definition apply_defaults :: "EngineConf \<Rightarrow> EngineConf" where
  "apply_defaults e =
     (let e = (if EventWorkers e = 0 then e\<lparr>EventWorkers := 32\<rparr> else e);
          e = (if ActionWorkers e = 0 then e\<lparr>ActionWorkers := 16\<rparr> else e);
          e = (if QueueDepth e = 0 then e\<lparr>QueueDepth := 10000\<rparr> else e);
          e = (if EventTimeoutMs e = 0 then e\<lparr>EventTimeoutMs := 5000\<rparr> else e)
      in e)"

definition load :: "string \<Rightarrow> (error + string) \<Rightarrow> (string \<Rightarrow> error + RuleConfig) \<Rightarrow> error + RuleConfig" where
  "load path readFile unmarshal =
     (case readFile of
        Inl err \<Rightarrow> Inl (''read config '' @ path @ '': '' @ err)
      | Inr data \<Rightarrow>
        (case unmarshal data of
           Inl err \<Rightarrow> Inl (''parse config '' @ path @ '': '' @ err)
         | Inr cfg \<Rightarrow> Inr (cfg\<lparr>rc_Engine := apply_defaults (rc_Engine cfg)\<rparr>)))"

text \<open>
  The engine block of a document as \<^verbatim>\<open>yaml.Unmarshal\<close> sees it: each key is
  present with a value or absent, and an absent key leaves the field of the
  zero-valued struct untouched (\<^verbatim>\<open>0\<close> for an \<^verbatim>\<open>int\<close>, \<^verbatim>\<open>false\<close> for a
  \<^verbatim>\<open>bool\<close>).
\<close>

record EngineDoc =
  doc_event_workers :: "int option"
  doc_action_workers :: "int option"
  doc_queue_depth :: "int option"
  doc_event_timeout_ms :: "int option"
  doc_fail_open :: "bool option"

definition decode_engine :: "EngineDoc \<Rightarrow> EngineConf" where
  "decode_engine d =
     \<lparr>EventWorkers = (case doc_event_workers d of None \<Rightarrow> 0 | Some n \<Rightarrow> n),
      ActionWorkers = (case doc_action_workers d of None \<Rightarrow> 0 | Some n \<Rightarrow> n),
      QueueDepth = (case doc_queue_depth d of None \<Rightarrow> 0 | Some n \<Rightarrow> n),
      EventTimeoutMs = (case doc_event_timeout_ms d of None \<Rightarrow> 0 | Some n \<Rightarrow> n),
      FailOpen = (case doc_fail_open d of None \<Rightarrow> False | Some b \<Rightarrow> b)\<rparr>"

definition load_engine :: "EngineDoc \<Rightarrow> EngineConf" where
  "load_engine d = apply_defaults (decode_engine d)"

definition is_VBool :: "dynval \<Rightarrow> bool" where
  "is_VBool v = (case v of VBool b \<Rightarrow> True | _ \<Rightarrow> False)"

text \<open>A document without an engine block, and the configuration it decodes to.\<close>

definition no_engine_doc :: EngineDoc where
  "no_engine_doc =
     \<lparr>doc_event_workers = None, doc_action_workers = None, doc_queue_depth = None,
      doc_event_timeout_ms = None, doc_fail_open = None\<rparr>"

definition no_engine_cfg :: RuleConfig where
  "no_engine_cfg =
     \<lparr>rc_Version = ''v1'', rc_Engine = decode_engine no_engine_doc, rc_Scenarios = []\<rparr>"

definition unmarshal_to :: "RuleConfig \<Rightarrow> string \<Rightarrow> error + RuleConfig" where
  "unmarshal_to cfg data = Inr cfg"

section \<open>A small stand-in for the library, to run the model on concrete inputs\<close>

definition ascii_lower :: "char \<Rightarrow> char" where
  "ascii_lower c =
     (case map_of (zip ''ABCDEFGHIJKLMNOPQRSTUVWXYZ'' ''abcdefghijklmnopqrstuvwxyz'') c of
        Some d \<Rightarrow> d
      | None \<Rightarrow> c)"

definition ascii_upper :: "char \<Rightarrow> char" where
  "ascii_upper c =
     (case map_of (zip ''abcdefghijklmnopqrstuvwxyz'' ''ABCDEFGHIJKLMNOPQRSTUVWXYZ'') c of
        Some d \<Rightarrow> d
      | None \<Rightarrow> c)"

definition digit_val :: "char \<Rightarrow> nat option" where
  "digit_val c =
     map_of (zip ''0123456789'' [0, 1, 2, 3, 4, 5, 6, 7, 8, 9]) c"

fun digits_val :: "nat \<Rightarrow> string \<Rightarrow> nat option" where
  "digits_val acc [] = Some acc"
| "digits_val acc (c # cs) =
     (case digit_val c of None \<Rightarrow> None | Some d \<Rightarrow> digits_val (10 * acc + d) cs)"

definition parse_nat :: "string \<Rightarrow> nat option" where
  "parse_nat s = (if s = [] then None else digits_val 0 s)"

definition ascii_ParseInt :: "string \<Rightarrow> int option" where
  "ascii_ParseInt s =
     (case s of
        [] \<Rightarrow> None
      | c # cs \<Rightarrow>
        (if c = CHR ''-'' then
           (case parse_nat cs of
              None \<Rightarrow> None
            | Some n \<Rightarrow> if int n \<le> 2 ^ 63 then Some (- int n) else None)
         else
           (case parse_nat s of
              None \<Rightarrow> None
            | Some n \<Rightarrow> if int n < 2 ^ 63 then Some (int n) else None)))"

definition ascii_ParseFloat :: "string \<Rightarrow> real option" where
  "ascii_ParseFloat s =
     (let neg = (s \<noteq> [] \<and> hd s = CHR ''-'');
          body = (if neg then tl s else s);
          ip = takeWhile (\<lambda>c. c \<noteq> CHR ''.'') body;
          fp = drop (Suc (length ip)) body
      in if ip = [] \<and> fp = [] then None
         else (case (digits_val 0 ip, digits_val 0 fp) of
                 (Some i, Some f) \<Rightarrow>
                   (let r = real i + real f / 10 ^ length fp
                    in Some (if neg then - r else r))
               | _ \<Rightarrow> None))"

definition ascii_fmt_T :: "dynval \<Rightarrow> string" where
  "ascii_fmt_T v =
     (case v of
        VNil \<Rightarrow> ''<nil>''
      | VBool b \<Rightarrow> ''bool''
      | VString s \<Rightarrow> ''string''
      | VInt k n \<Rightarrow> ''int''
      | VFloat32 r \<Rightarrow> ''float32''
      | VFloat64 r \<Rightarrow> ''float64''
      | VMap m \<Rightarrow> ''map[string]interface {}''
      | VList l \<Rightarrow> ''[]interface {}'')"

definition ascii_lib :: golib where
  "ascii_lib =
     \<lparr>strings_ToLower = map ascii_lower,
      strings_ToUpper = map ascii_upper,
      fmt_v_other = ascii_fmt_T,
      fmt_q = (\<lambda>s. [CHR 0x22] @ s @ [CHR 0x22]),
      fmt_q_byte = (\<lambda>c. [CHR 0x27, c, CHR 0x27]),
      fmt_d = (\<lambda>n. replicate n CHR ''I''),
      fmt_T = ascii_fmt_T,
      regexp_Compile = (\<lambda>p. Inl ''regexp: not available''),
      strconv_ParseFloat = ascii_ParseFloat,
      strconv_ParseInt = ascii_ParseInt\<rparr>"

section \<open>Properties\<close>

lemma ascii_lib_sel [simp]:
  "strings_ToLower ascii_lib = map ascii_lower"
  "strings_ToUpper ascii_lib = map ascii_upper"
  "fmt_v_other ascii_lib = ascii_fmt_T"
  "fmt_T ascii_lib = ascii_fmt_T"
  "fmt_q ascii_lib s = [CHR 0x22] @ s @ [CHR 0x22]"
  "fmt_q_byte ascii_lib c = [CHR 0x27, c, CHR 0x27]"
  "fmt_d ascii_lib n = replicate n CHR ''I''"
  "regexp_Compile ascii_lib p = Inl ''regexp: not available''"
  "strconv_ParseFloat ascii_lib = ascii_ParseFloat"
  "strconv_ParseInt ascii_lib = ascii_ParseInt"
  by (simp_all add: ascii_lib_def)

subsection \<open>C3: when a scenario passes\<close>

text \<open>
  Claim C3. A scenario node passes exactly when the lowercased event type is in
  its set of event types and its set of sources is empty or holds the lowercased
  event source. For a node made by \<open>NewScenarioNode\<close> from the document's lists
  this is: some listed event type equals the event's type up to case, and the
  list of sources is empty or some listed source equals the event's source up to
  case.
\<close>

theorem scenario_passes_iff:
  "ScenarioNode_Evaluate L n ctx =
     Inr (strings_ToLower L (Event_Type (ctx_Event ctx)) \<in> sn_eventTypes n
          \<and> (sn_sources n = {} \<or> strings_ToLower L (Event_Source (ctx_Event ctx)) \<in> sn_sources n))
   \<and> ScenarioNode_Evaluate L (NewScenarioNode L i eventTypes sources) ctx =
     Inr ((\<exists>t \<in> set eventTypes. strings_ToLower L t = strings_ToLower L (Event_Type (ctx_Event ctx)))
          \<and> (sources = [] \<or>
              (\<exists>s \<in> set sources. strings_ToLower L s = strings_ToLower L (Event_Source (ctx_Event ctx)))))"
proof -
  have mem: "\<And>x xs. (x \<in> set (map (strings_ToLower L) xs)) = (\<exists>t \<in> set xs. strings_ToLower L t = x)"
    by auto
  have general: "\<And>n. ScenarioNode_Evaluate L n ctx =
     Inr (strings_ToLower L (Event_Type (ctx_Event ctx)) \<in> sn_eventTypes n
          \<and> (sn_sources n = {} \<or> strings_ToLower L (Event_Source (ctx_Event ctx)) \<in> sn_sources n))"
    by (simp add: ScenarioNode_Evaluate_def)
  have built: "ScenarioNode_Evaluate L (NewScenarioNode L i eventTypes sources) ctx =
     Inr ((\<exists>t \<in> set eventTypes. strings_ToLower L t = strings_ToLower L (Event_Type (ctx_Event ctx)))
          \<and> (sources = [] \<or>
              (\<exists>s \<in> set sources. strings_ToLower L s = strings_ToLower L (Event_Source (ctx_Event ctx)))))"
    unfolding general NewScenarioNode_def
    by (simp only: mem ScenarioNode.simps set_empty map_is_Nil_conv)
  from general built show ?thesis by blast
qed

theorem scenario_passes_iff_witness:
  "ScenarioNode_Evaluate ascii_lib (NewScenarioNode ascii_lib ''sc'' [''Transaction''] [''POS-System''])
     \<lparr>ctx_Event = \<lparr>Event_ID = ''e1'', Event_Type = ''TRANSACTION'', Event_Source = ''pos-system'',
        Event_ActorID = ''u'', Event_Payload = None, Event_Meta = None\<rparr>,
      ctx_Results = Some [], ctx_Errors = []\<rparr> = Inr True"
  using scenario_passes_iff [THEN conjunct2, of ascii_lib "''sc''" "[''Transaction'']" "[''POS-System'']"]
  by (simp add: ascii_lower_def)

subsection \<open>C8: defaults applied by the loader\<close>

lemma apply_defaults_fields:
  "EventWorkers (apply_defaults e) = (if EventWorkers e = 0 then 32 else EventWorkers e)"
  "ActionWorkers (apply_defaults e) = (if ActionWorkers e = 0 then 16 else ActionWorkers e)"
  "QueueDepth (apply_defaults e) = (if QueueDepth e = 0 then 10000 else QueueDepth e)"
  "EventTimeoutMs (apply_defaults e) = (if EventTimeoutMs e = 0 then 5000 else EventTimeoutMs e)"
  "FailOpen (apply_defaults e) = FailOpen e"
  by (simp_all add: apply_defaults_def Let_def)

text \<open>
  Claim C8 as stated fails for \<open>fail_open\<close>: a document without an engine block
  loads with \<open>fail_open\<close> false.
\<close>

theorem load_defaults_counterexample:
  "load ''rules.yaml'' (Inr ''version: v1'') (unmarshal_to no_engine_cfg) =
     Inr \<lparr>rc_Version = ''v1'',
          rc_Engine = \<lparr>EventWorkers = 32, ActionWorkers = 16, QueueDepth = 10000,
                       EventTimeoutMs = 5000, FailOpen = False\<rparr>,
          rc_Scenarios = []\<rparr>
   \<and> rc_Engine no_engine_cfg = decode_engine no_engine_doc
   \<and> doc_fail_open no_engine_doc = None"
  by (simp add: load_def unmarshal_to_def no_engine_cfg_def no_engine_doc_def
        apply_defaults_def decode_engine_def)

text \<open>
  Claim C8, amended. When the file is read and decoded, the loader returns the
  decoded configuration with the engine block replaced; in it each of
  \<open>event_workers\<close>, \<open>action_workers\<close>, \<open>queue_depth\<close> and \<open>event_timeout_ms\<close> that is
  absent from the document has its default 32, 16, 10000 and 5000, and
  \<open>fail_open\<close> keeps the decoded value, which is false when the key is absent.
\<close>

theorem load_defaults:
  assumes "readFile = Inr data" and "unmarshal data = Inr cfg"
    and "rc_Engine cfg = decode_engine d"
  shows "\<exists>cfg'. load path readFile unmarshal = Inr cfg'
           \<and> cfg' = cfg\<lparr>rc_Engine := load_engine d\<rparr>
           \<and> (doc_event_workers d = None \<longrightarrow> EventWorkers (rc_Engine cfg') = 32)
           \<and> (doc_action_workers d = None \<longrightarrow> ActionWorkers (rc_Engine cfg') = 16)
           \<and> (doc_queue_depth d = None \<longrightarrow> QueueDepth (rc_Engine cfg') = 10000)
           \<and> (doc_event_timeout_ms d = None \<longrightarrow> EventTimeoutMs (rc_Engine cfg') = 5000)
           \<and> FailOpen (rc_Engine cfg') = (case doc_fail_open d of None \<Rightarrow> False | Some b \<Rightarrow> b)"
proof -
  have l: "load path readFile unmarshal = Inr (cfg\<lparr>rc_Engine := load_engine d\<rparr>)"
    using assms by (simp add: load_def load_engine_def)
  have f: "doc_event_workers d = None \<longrightarrow> EventWorkers (load_engine d) = 32"
    "doc_action_workers d = None \<longrightarrow> ActionWorkers (load_engine d) = 16"
    "doc_queue_depth d = None \<longrightarrow> QueueDepth (load_engine d) = 10000"
    "doc_event_timeout_ms d = None \<longrightarrow> EventTimeoutMs (load_engine d) = 5000"
    "FailOpen (load_engine d) = (case doc_fail_open d of None \<Rightarrow> False | Some b \<Rightarrow> b)"
    by (simp_all add: load_engine_def apply_defaults_fields decode_engine_def)
  from l f show ?thesis by simp
qed

theorem load_defaults_witness:
  "EventWorkers (load_engine no_engine_doc) = 32
   \<and> ActionWorkers (load_engine no_engine_doc) = 16
   \<and> QueueDepth (load_engine no_engine_doc) = 10000
   \<and> EventTimeoutMs (load_engine no_engine_doc) = 5000
   \<and> FailOpen (load_engine no_engine_doc) = False
   \<and> load ''rules.yaml'' (Inr ''version: v1'') (unmarshal_to no_engine_cfg) =
       Inr (no_engine_cfg\<lparr>rc_Engine := load_engine no_engine_doc\<rparr>)"
proof -
  have d: "rc_Engine no_engine_cfg = decode_engine no_engine_doc"
    by (simp add: no_engine_cfg_def)
  have u: "unmarshal_to no_engine_cfg ''version: v1'' = Inr no_engine_cfg"
    by (simp add: unmarshal_to_def)
  have n: "doc_event_workers no_engine_doc = None" "doc_action_workers no_engine_doc = None"
    "doc_queue_depth no_engine_doc = None" "doc_event_timeout_ms no_engine_doc = None"
    "doc_fail_open no_engine_doc = None"
    by (simp_all add: no_engine_doc_def)
  from load_defaults [of "Inr ''version: v1''" "''version: v1''" "unmarshal_to no_engine_cfg"
      no_engine_cfg no_engine_doc "''rules.yaml''", OF refl u d] n
  show ?thesis
    by auto
qed

subsection \<open>C9: equality between a boolean and a string depends on the operand order\<close>

text \<open>
  Claim C9. With a boolean on the left and a right operand that is neither
  numerically coercible nor a boolean, \<open>==\<close> is false. With a string on the left
  and a boolean on the right, \<open>==\<close> compares the two \<^verbatim>\<open>%v\<close> renderings. Hence
  \<^verbatim>\<open>"true" == true\<close> holds and \<^verbatim>\<open>true == "true"\<close> does not.
\<close>

theorem equal_bool_not_commutative:
  assumes "toFloat64 r = None" and "\<not> is_VBool r"
  shows "\<not> equal_val L (VBool b) r
       \<and> equal_val L (VString s) (VBool b) = (Sprint_v L (VString s) = Sprint_v L (VBool b))
       \<and> equal_val L (VString ''true'') (VBool True)
       \<and> \<not> equal_val L (VBool True) (VString ''true'')"
  using assms by (cases r) (simp_all add: equal_val_def is_VBool_def Sprint_v_def)

theorem equal_bool_not_commutative_witness:
  "toFloat64 (VString ''true'') = None \<and> \<not> is_VBool (VString ''true'')
   \<and> \<not> equal_val ascii_lib (VBool True) (VString ''true'')
   \<and> equal_val ascii_lib (VString ''true'') (VBool True)"
  using equal_bool_not_commutative [of "VString ''true''" ascii_lib True "''true''"]
  by (simp add: is_VBool_def Sprint_v_def)

end
